theory Spec2Isabelle
  imports Main
begin

section \<open>Strings and the URL query serializer\<close>

text \<open>
  JavaScript strings are modelled as HOL strings. A HOL character is one of the code
  points 0..255, each of which is a single UTF-16 code unit, so \<open>length\<close> is the
  \<open>.length\<close> of the source for every string the model can express.
\<close>

definition startsWith :: "string \<Rightarrow> string \<Rightarrow> bool" where
  \<comment> \<open>\<open>s.startsWith(p)\<close>\<close>
  "startsWith s p = (take (length p) s = p)"

text \<open>
  \<open>URLSearchParams.prototype.toString\<close> is the application/x-www-form-urlencoded
  serializer of the platform: a name or value is encoded as UTF-8, a space becomes
  \<open>+\<close>, ASCII letters, digits and \<open>* - . _\<close> stay, every other byte is written
  \<open>%XX\<close> with upper-case hexadecimal digits. Pairs are written \<open>name=value\<close>
  and joined by \<open>&\<close>.
\<close>

definition hexdigit :: "nat \<Rightarrow> char" where
  "hexdigit n = char_of (if n < 10 then 48 + n else 55 + n)"

definition percent_byte :: "nat \<Rightarrow> string" where
  "percent_byte b = [CHR ''%'', hexdigit (b div 16), hexdigit (b mod 16)]"

definition utf8_bytes :: "char \<Rightarrow> nat list" where
  \<comment> \<open>code points below 128 are one byte, those from 128 to 255 are two\<close>
  "utf8_bytes c =
     (let n = (of_char c :: nat)
      in if n < 128 then [n] else [192 + n div 64, 128 + n mod 64])"

definition form_unreserved :: "char \<Rightarrow> bool" where
  "form_unreserved c =
     (let n = (of_char c :: nat)
      in (48 \<le> n \<and> n \<le> 57) \<or> (65 \<le> n \<and> n \<le> 90) \<or> (97 \<le> n \<and> n \<le> 122)
         \<or> n = 42 \<or> n = 45 \<or> n = 46 \<or> n = 95)"

definition form_encode_char :: "char \<Rightarrow> string" where
  "form_encode_char c =
     (if c = CHR '' '' then ''+''
      else if form_unreserved c then [c]
      else concat (map percent_byte (utf8_bytes c)))"

definition form_encode :: "string \<Rightarrow> string" where
  "form_encode s = concat (map form_encode_char s)"

fun join_amp :: "string list \<Rightarrow> string" where
  "join_amp [] = []"
| "join_amp [x] = x"
| "join_amp (x # y # ys) = x @ ''&'' @ join_amp (y # ys)"

type_synonym searchParams = "(string \<times> string) list"

definition searchParams_toString :: "searchParams \<Rightarrow> string" where
  "searchParams_toString ps =
     join_amp (map (\<lambda>(n, v). form_encode n @ ''='' @ form_encode v) ps)"

fun searchParams_set :: "searchParams \<Rightarrow> string \<Rightarrow> string \<Rightarrow> searchParams" where
  \<comment> \<open>\<open>set(name, value)\<close>: the first pair of that name takes the value, later ones
      are removed; with no such pair the new one is appended\<close>
  "searchParams_set [] n v = [(n, v)]"
| "searchParams_set ((k, w) # ps) n v =
     (if k = n then (n, v) # filter (\<lambda>(k', _). k' \<noteq> n) ps
      else (k, w) # searchParams_set ps n v)"

section \<open>Route guard (src/proxy.ts)\<close>

record sessionUser =
  su_name :: "string option"
  su_email :: "string option"
  su_image :: "string option"
  su_role :: "string option"
  su_id :: "string option"

record session =
  s_user :: "sessionUser option"
  s_expires :: nat

text \<open>
  The request as the handler reads it: \<open>req.url\<close> (of which only the origin matters
  to \<open>new URL(path, req.url)\<close>), \<open>req.nextUrl.pathname\<close>,
  \<open>req.nextUrl.searchParams\<close> and \<open>req.auth\<close> (the verified session, or null).
\<close>

record request =
  req_origin :: string
  pathname :: string
  searchParams :: searchParams
  auth :: "session option"

record url =
  url_origin :: string
  url_pathname :: string
  url_searchParams :: searchParams

definition new_URL :: "string \<Rightarrow> request \<Rightarrow> url" where
  \<comment> \<open>\<open>new URL(path, req.url)\<close> for an absolute path: the base's origin, that path,
      no query\<close>
  "new_URL path req = \<lparr>url_origin = req_origin req, url_pathname = path, url_searchParams = []\<rparr>"

definition href :: "url \<Rightarrow> string" where
  "href u =
     url_origin u @ url_pathname u @
     (if url_searchParams u = [] then [] else ''?'' @ searchParams_toString (url_searchParams u))"

datatype response = Redirect url | Next

definition from_value :: "request \<Rightarrow> string" where
  \<comment> \<open>\<open>pathname + (search ? `?${search}` : "")\<close>\<close>
  "from_value req =
     (let search = searchParams_toString (searchParams req)
      in pathname req @ (if search \<noteq> [] then ''?'' @ search else []))"

definition proxy :: "request \<Rightarrow> response" where
  "proxy req =
     (if startsWith (pathname req) ''/dashboard'' \<and> auth req = None then
        (let u = new_URL ''/auth/v1/login'' req
         in Redirect (u\<lparr>url_searchParams := searchParams_set (url_searchParams u) ''from'' (from_value req)\<rparr>))
      else Next)"

text \<open>
  \<open>config.matcher\<close> is \<open>["/dashboard/:path*"]\<close>. The pattern is evaluated by the
  framework, which is not part of the repository; \<open>:path*\<close> stands for zero or more
  path segments, so the pattern covers \<open>/dashboard\<close> itself and everything below
  \<open>/dashboard/\<close>. The handler runs only for a request the pattern covers; any other
  request proceeds untouched.
\<close>

definition matcher :: "string \<Rightarrow> bool" where
  "matcher p = (p = ''/dashboard'' \<or> startsWith p ''/dashboard/'')"

definition route_guard :: "request \<Rightarrow> response" where
  "route_guard req = (if matcher (pathname req) then proxy req else Next)"

definition same_origin_path :: "string \<Rightarrow> bool" where
  \<comment> \<open>a path on the same origin: it starts with one slash, not with
      \<open>//\<close> or slash-backslash, which would name another host\<close>
  "same_origin_path v =
     (startsWith v ''/'' \<and> \<not> startsWith v ''//'' \<and> \<not> startsWith v [CHR ''/'', CHR 0x5C])"

section \<open>Login: data model\<close>

text \<open>The \<open>User\<close> model of the store; \<open>name\<close> is nullable.\<close>

record user =
  user_id :: string
  user_email :: string
  user_name :: "string option"
  passwordHash :: string
  user_role :: string
  createdAt :: nat

text \<open>The object \<open>authorize\<close> returns for the session: \<open>{id, email, name, role}\<close>.\<close>

record authUser =
  au_id :: string
  au_email :: string
  au_name :: "string option"
  au_role :: string

text \<open>
  The claims of the JWT. The framework fills \<open>name\<close>, \<open>email\<close>, \<open>picture\<close> and
  \<open>sub\<close>; the \<open>jwt\<close> callback adds \<open>role\<close> and \<open>id\<close>.
\<close>

record token =
  t_name :: "string option"
  t_email :: "string option"
  t_picture :: "string option"
  t_sub :: "string option"
  t_role :: "string option"
  t_id :: "string option"

record sessionCookie =
  claims :: token
  issuedAt :: nat
  expiresAt :: nat

text \<open>
  A value as the validators receive it: a form field is a string, a file or null
  (\<open>FormData.get\<close>), a missing property is undefined.
\<close>

datatype jsval = JUndefined | JNull | JString string | JFile

record formData =
  fd_email :: jsval
  fd_password :: jsval
  fd_from :: jsval

record credentials =
  c_email :: jsval
  c_password :: jsval

record loginData =
  d_email :: string
  d_password :: string
  d_from :: "string option"

record signInOptions =
  o_email :: string
  o_password :: string
  redirectTo :: "string option"

record LoginState =
  error :: "string option"
  success :: "bool option"

text \<open>
  An issue of a failed validation: a value of the wrong type at a path (the library's
  own message), or a failed check with the message the schema gives.
\<close>

datatype zod_issue = InvalidType string | Issue string string

text \<open>
  What can be thrown: a \<open>ZodError\<close> with its issues, an \<open>AuthError\<close> with its
  \<open>type\<close> and its internal detail, the framework's redirect instruction with its
  target, any other error with its detail.
\<close>

datatype exn =
    ZodError "zod_issue list"
  | AuthError string string
  | NextRedirect string
  | OtherError string

datatype logarg = LNone | LCreds credentials | LIssues "zod_issue list" | LStr string | LBool bool

text \<open>What the flow does besides computing: console output and calls of the collaborators.\<close>

datatype event =
    Log string logarg
  | FindUnique string
  | BcryptCompare string string

text \<open>
  The collaborators, none of them code of the repository: the validation library's
  e-mail shape, the store's point lookup by e-mail (\<open>Inl\<close>: it throws), the hash
  comparison, whether signing fails (with the internal detail), the clock and the
  session lifetime.
\<close>

record env =
  isEmail :: "string \<Rightarrow> bool"
  findUnique :: "string \<Rightarrow> string + user option"
  bcrypt_compare :: "string \<Rightarrow> string \<Rightarrow> bool"
  signing_error :: "string option"
  now :: nat
  maxAge :: nat

record state =
  cookie :: "sessionCookie option"
  console :: "event list"

section \<open>Validation\<close>

definition z_string_email :: "(string \<Rightarrow> bool) \<Rightarrow> string \<Rightarrow> string \<Rightarrow> jsval \<Rightarrow> zod_issue list + string" where
  \<comment> \<open>\<open>z.string().email(msg)\<close> at a path\<close>
  "z_string_email isEm path msg v =
     (case v of JString s \<Rightarrow> if isEm s then Inr s else Inl [Issue path msg]
      | _ \<Rightarrow> Inl [InvalidType path])"

definition z_string_min :: "nat \<Rightarrow> string \<Rightarrow> string \<Rightarrow> jsval \<Rightarrow> zod_issue list + string" where
  \<comment> \<open>\<open>z.string().min(n, msg)\<close> at a path\<close>
  "z_string_min n path msg v =
     (case v of JString s \<Rightarrow> if n \<le> length s then Inr s else Inl [Issue path msg]
      | _ \<Rightarrow> Inl [InvalidType path])"

definition z_string_optional :: "string \<Rightarrow> jsval \<Rightarrow> zod_issue list + string option" where
  \<comment> \<open>\<open>z.string().optional()\<close> at a path\<close>
  "z_string_optional path v =
     (case v of JString s \<Rightarrow> Inr (Some s) | JUndefined \<Rightarrow> Inr None
      | _ \<Rightarrow> Inl [InvalidType path])"

fun issues_of :: "zod_issue list + 'a \<Rightarrow> zod_issue list" where
  "issues_of (Inl is) = is"
| "issues_of (Inr _) = []"

definition or_default :: "jsval \<Rightarrow> jsval" where
  \<comment> \<open>\<open>formData.get("from") || "/dashboard/default"\<close>: null and the empty string are falsy\<close>
  "or_default v =
     (case v of JNull \<Rightarrow> JString ''/dashboard/default''
      | JUndefined \<Rightarrow> JString ''/dashboard/default''
      | JString s \<Rightarrow> if s = [] then JString ''/dashboard/default'' else JString s
      | JFile \<Rightarrow> JFile)"

definition loginSchema_parse :: "(string \<Rightarrow> bool) \<Rightarrow> formData \<Rightarrow> zod_issue list + loginData" where
  \<comment> \<open>\<open>loginSchema.parse({email, password, from})\<close> of actions.ts; \<open>Inl\<close>: it throws
      a \<open>ZodError\<close> with these issues\<close>
  "loginSchema_parse isEm fd =
     (let e = z_string_email isEm ''email'' ''Invalid email address'' (fd_email fd);
          p = z_string_min 6 ''password'' ''Password must be at least 6 characters'' (fd_password fd);
          f = z_string_optional ''from'' (or_default (fd_from fd))
      in case (e, p, f) of
           (Inr e', Inr p', Inr f') \<Rightarrow> Inr \<lparr>d_email = e', d_password = p', d_from = f'\<rparr>
         | _ \<Rightarrow> Inl (issues_of e @ issues_of p @ issues_of f))"

definition authorize_safeParse :: "(string \<Rightarrow> bool) \<Rightarrow> credentials \<Rightarrow> zod_issue list + (string \<times> string)" where
  \<comment> \<open>\<open>schema.safeParse(credentials)\<close> of \<open>authorize\<close>\<close>
  "authorize_safeParse isEm c =
     (let e = z_string_email isEm ''email'' ''Invalid email address'' (c_email c);
          p = z_string_min 6 ''password'' ''Password must be at least 6 characters'' (c_password c)
      in case (e, p) of
           (Inr e', Inr p') \<Rightarrow> Inr (e', p')
         | _ \<Rightarrow> Inl (issues_of e @ issues_of p))"

section \<open>The credentials provider and the callbacks (auth.config.ts)\<close>

definition authorize :: "env \<Rightarrow> credentials \<Rightarrow> event list \<times> (exn + authUser option)" where
  \<comment> \<open>the events in the order they happen, and the user object, null (\<open>None\<close>) or the
      error thrown\<close>
  "authorize E c =
     (let ev0 = [Log ''[AUTH] authorize called with:'' (LCreds c)]
      in case authorize_safeParse (isEmail E) c of
           Inl is \<Rightarrow> (ev0 @ [Log ''[AUTH] Validation failed:'' (LIssues is)], Inr None)
         | Inr (email, password) \<Rightarrow>
             (let ev1 = ev0 @ [Log ''[AUTH] Looking for user:'' (LStr email), FindUnique email]
              in case findUnique E email of
                   Inl d \<Rightarrow> (ev1, Inl (OtherError d))
                 | Inr None \<Rightarrow> (ev1 @ [Log ''[AUTH] User not found'' LNone], Inr None)
                 | Inr (Some u) \<Rightarrow>
                     (let isValidPassword = bcrypt_compare E password (passwordHash u);
                          ev2 = ev1 @ [Log ''[AUTH] User found, checking password'' LNone,
                                       BcryptCompare password (passwordHash u),
                                       Log ''[AUTH] Password valid:'' (LBool isValidPassword)]
                      in if \<not> isValidPassword then (ev2, Inr None)
                         else (ev2 @ [Log ''[AUTH] Login successful for:'' (LStr (user_email u))],
                               Inr (Some \<lparr>au_id = user_id u, au_email = user_email u,
                                          au_name = user_name u, au_role = user_role u\<rparr>)))))"

definition jwt :: "token \<Rightarrow> authUser option \<Rightarrow> token" where
  \<comment> \<open>\<open>callbacks.jwt\<close>: on sign-in the user is present and role and id are added\<close>
  "jwt tok usr =
     (case usr of Some u \<Rightarrow> tok\<lparr>t_role := Some (au_role u), t_id := Some (au_id u)\<rparr>
      | None \<Rightarrow> tok)"

definition session_callback :: "session \<Rightarrow> token \<Rightarrow> session" where
  \<comment> \<open>\<open>callbacks.session\<close>\<close>
  "session_callback s tok =
     (case s_user s of
        Some su \<Rightarrow> s\<lparr>s_user := Some (su\<lparr>su_role := t_role tok, su_id := t_id tok\<rparr>)\<rparr>
      | None \<Rightarrow> s)"

definition calls :: "event list \<Rightarrow> event list" where
  \<comment> \<open>the collaborator calls among the events, in order\<close>
  "calls evs = filter (\<lambda>e. case e of Log _ _ \<Rightarrow> False | _ \<Rightarrow> True) evs"

section \<open>Session issuance (src/auth.ts)\<close>

fun exn_detail :: "exn \<Rightarrow> string" where
  "exn_detail (ZodError _) = ''ZodError''"
| "exn_detail (AuthError _ d) = d"
| "exn_detail (NextRedirect t) = t"
| "exn_detail (OtherError d) = d"

definition default_token :: "authUser \<Rightarrow> token" where
  \<comment> \<open>the claims the framework starts from at sign-in, before the \<open>jwt\<close> callback\<close>
  "default_token u =
     \<lparr>t_name = au_name u, t_email = Some (au_email u), t_picture = None,
      t_sub = Some (au_id u), t_role = None, t_id = None\<rparr>"

text \<open>
  Modelled from the spec: \<open>signIn\<close> of src/auth.ts, the framework instance built from
  auth.config.ts; auth.ts is not among the sources. Following sections 4.2 and 7 of the
  specification and the comment in actions.ts: the provider's \<open>authorize\<close> is run on
  the submitted credentials; null is a credentials failure (the \<open>AuthError\<close> of type
  \<open>CredentialsSignin\<close>); an error thrown by \<open>authorize\<close> or a failure to sign is
  an \<open>AuthError\<close> of another type carrying the internal detail; otherwise the token
  built by the \<open>jwt\<close> callback is set as the session cookie, bounded by the session
  lifetime, and success is signalled by throwing the redirect to \<open>redirectTo\<close>.
\<close>

definition signIn :: "env \<Rightarrow> string \<Rightarrow> signInOptions \<Rightarrow> state \<Rightarrow> (exn + unit) \<times> state" where
  "signIn E provider opts st =
     (if provider \<noteq> ''credentials'' then (Inl (AuthError ''InvalidProvider'' provider), st)
      else
        (let (evs, r) = authorize E \<lparr>c_email = JString (o_email opts), c_password = JString (o_password opts)\<rparr>;
             st1 = st\<lparr>console := console st @ evs\<rparr>
         in case r of
              Inl e \<Rightarrow> (Inl (AuthError ''CallbackRouteError'' (exn_detail e)), st1)
            | Inr None \<Rightarrow> (Inl (AuthError ''CredentialsSignin'' []), st1)
            | Inr (Some u) \<Rightarrow>
                (case signing_error E of
                   Some d \<Rightarrow> (Inl (AuthError ''JWTSessionError'' d), st1)
                 | None \<Rightarrow>
                     (Inl (NextRedirect (case redirectTo opts of Some t \<Rightarrow> t | None \<Rightarrow> ''/'')),
                      st1\<lparr>cookie := Some \<lparr>claims = jwt (default_token u) (Some u),
                                           issuedAt = now E, expiresAt = now E + maxAge E\<rparr>\<rparr>))))"

text \<open>
  Modelled from the spec: \<open>auth\<close> of src/auth.ts, which reads the session for the
  route guard and the pages. Following section 4.3: a token is accepted until it
  expires; the session starts from the token's name, e-mail and picture and is passed
  through the \<open>session\<close> callback.
\<close>

definition auth_session :: "env \<Rightarrow> state \<Rightarrow> session option" where
  "auth_session E st =
     (case cookie st of
        None \<Rightarrow> None
      | Some c \<Rightarrow>
          if now E < expiresAt c then
            Some (session_callback
                    \<lparr>s_user = Some \<lparr>su_name = t_name (claims c), su_email = t_email (claims c),
                                     su_image = t_picture (claims c), su_role = None, su_id = None\<rparr>,
                     s_expires = expiresAt c\<rparr>
                    (claims c))
          else None)"

section \<open>The login action (src/app/(main)/auth/v1/login/actions.ts)\<close>

definition catch_handler :: "exn \<Rightarrow> exn + LoginState" where
  \<comment> \<open>the \<open>catch\<close> block: \<open>Inl\<close> is the error thrown again\<close>
  "catch_handler e =
     (case e of
        AuthError t d \<Rightarrow>
          if t = ''CredentialsSignin'' then Inr \<lparr>error = Some ''Invalid email or password'', success = None\<rparr>
          else Inr \<lparr>error = Some ''Something went wrong. Please try again.'', success = None\<rparr>
      | _ \<Rightarrow> Inl e)"

definition loginAction ::
  "(string \<Rightarrow> bool) \<Rightarrow> (string \<Rightarrow> signInOptions \<Rightarrow> state \<Rightarrow> (exn + unit) \<times> state)
     \<Rightarrow> LoginState \<Rightarrow> formData \<Rightarrow> state \<Rightarrow> (exn + LoginState) \<times> state" where
  \<comment> \<open>the action over what it imports: the e-mail shape of the validation library and
      \<open>signIn\<close>; the previous state is not read\<close>
  "loginAction isEm sI prevState fd st =
     (case loginSchema_parse isEm fd of
        Inl is \<Rightarrow> (catch_handler (ZodError is), st)
      | Inr d \<Rightarrow>
          (case sI ''credentials'' \<lparr>o_email = d_email d, o_password = d_password d, redirectTo = d_from d\<rparr> st of
             (Inl e, st') \<Rightarrow> (catch_handler e, st')
           | (Inr _, st') \<Rightarrow> (Inr \<lparr>error = None, success = Some True\<rparr>, st')))"

definition login :: "env \<Rightarrow> LoginState \<Rightarrow> formData \<Rightarrow> state \<Rightarrow> (exn + LoginState) \<times> state" where
  \<comment> \<open>the action as deployed, bound to \<open>signIn\<close> of auth.ts\<close>
  "login E = loginAction (isEmail E) (signIn E)"

section \<open>Sample data\<close>

text \<open>The user of prisma/seed.ts, with a stand-in for the hash of its password.\<close>

definition admin :: user where
  "admin = \<lparr>user_id = ''u1'', user_email = ''admin@example.com'', user_name = Some ''Admin'',
            passwordHash = ''hash:admin123'', user_role = ''admin'', createdAt = 0\<rparr>"

definition sample_env :: env where
  "sample_env =
     \<lparr>isEmail = (\<lambda>s. CHR ''@'' \<in> set s),
      findUnique = (\<lambda>e. if e = ''admin@example.com'' then Inr (Some admin) else Inr None),
      bcrypt_compare = (\<lambda>p h. h = ''hash:'' @ p),
      signing_error = None, now = 1000, maxAge = 2592000\<rparr>"

definition store_down_env :: env where
  "store_down_env = sample_env\<lparr>findUnique := (\<lambda>e. Inl ''connect ECONNREFUSED 10.0.0.5:5432'')\<rparr>"

definition form :: "string \<Rightarrow> string \<Rightarrow> jsval \<Rightarrow> formData" where
  "form e p f = \<lparr>fd_email = JString e, fd_password = JString p, fd_from = f\<rparr>"

definition state0 :: state where
  "state0 = \<lparr>cookie = None, console = []\<rparr>"

definition prev0 :: LoginState where
  "prev0 = \<lparr>error = None, success = Some False\<rparr>"

definition reports_request :: request where
  "reports_request =
     \<lparr>req_origin = ''http://localhost:3000'', pathname = ''/dashboard/reports'',
      searchParams = [(''x'', ''1'')], auth = None\<rparr>"

definition login_request :: request where
  "login_request =
     \<lparr>req_origin = ''http://localhost:3000'', pathname = ''/auth/v1/login'',
      searchParams = [], auth = None\<rparr>"

section \<open>Properties of the route guard\<close>

lemma startsWith_iff: "startsWith s p \<longleftrightarrow> (\<exists>r. s = p @ r)"
proof
  assume "startsWith s p"
  then have "s = p @ drop (length p) s"
    unfolding startsWith_def by (metis append_take_drop_id)
  then show "\<exists>r. s = p @ r" ..
next
  assume "\<exists>r. s = p @ r"
  then show "startsWith s p" unfolding startsWith_def by auto
qed

lemma startsWith_shorter: "startsWith s (p @ q) \<Longrightarrow> startsWith s p"
  unfolding startsWith_iff by auto

lemma matcher_startsWith: "matcher p \<Longrightarrow> startsWith p ''/dashboard''"
proof -
  assume "matcher p"
  then consider "p = ''/dashboard''" | "startsWith p (''/dashboard'' @ ''/'')"
    unfolding matcher_def by auto
  then show ?thesis
  proof cases
    case 1
    then show ?thesis by (simp add: startsWith_def)
  next
    case 2
    then show ?thesis by (rule startsWith_shorter)
  qed
qed

lemma join_amp_empty: "join_amp xs = [] \<longleftrightarrow> (xs = [] \<or> xs = [[]])"
  by (induction xs rule: join_amp.induct) auto

lemma searchParams_toString_empty: "searchParams_toString ps = [] \<longleftrightarrow> ps = []"
  unfolding searchParams_toString_def join_amp_empty by (cases ps) auto

lemma from_value_eq:
  "from_value req =
     pathname req @ (if searchParams req = [] then [] else ''?'' @ searchParams_toString (searchParams req))"
  unfolding from_value_def Let_def by (simp add: searchParams_toString_empty)

lemma proxy_redirect:
  assumes "startsWith (pathname req) ''/dashboard''" and "auth req = None"
  shows "proxy req =
           Redirect \<lparr>url_origin = req_origin req, url_pathname = ''/auth/v1/login'',
                     url_searchParams = [(''from'', from_value req)]\<rparr>"
  using assms unfolding proxy_def new_URL_def Let_def by simp

lemma proxy_cases:
  "proxy req = Next \<or>
   proxy req = Redirect \<lparr>url_origin = req_origin req, url_pathname = ''/auth/v1/login'',
                          url_searchParams = [(''from'', from_value req)]\<rparr>
     \<and> startsWith (pathname req) ''/dashboard'' \<and> auth req = None"
  unfolding proxy_def new_URL_def Let_def by simp

lemma href_from:
  "href \<lparr>url_origin = og, url_pathname = ''/auth/v1/login'', url_searchParams = [(''from'', v)]\<rparr>
     = og @ ''/auth/v1/login?from='' @ form_encode v"
  unfolding href_def searchParams_toString_def by code_simp

lemma login_path_not_dashboard: "\<not> startsWith ''/auth/v1/login'' ''/dashboard''"
  unfolding startsWith_def by simp

text \<open>
  Claim C5. For every unauthenticated request whose path starts with \<open>/dashboard\<close>,
  the route guard answers with a redirect to the login entry point \<open>/auth/v1/login\<close>
  on the request's origin, whose only query parameter is \<open>from\<close>; its value is the
  requested path followed, when there is a query, by \<open>?\<close> and the query string; in
  the redirect's address the value is percent-encoded. For \<open>/dashboard/reports?x=1\<close>
  the address ends in \<open>/auth/v1/login?from=%2Fdashboard%2Freports%3Fx%3D1\<close>.
\<close>

theorem guard_redirect_carries_from:
  assumes "startsWith (pathname req) ''/dashboard''" and "auth req = None"
  shows "proxy req =
           Redirect \<lparr>url_origin = req_origin req, url_pathname = ''/auth/v1/login'',
                     url_searchParams = [(''from'', from_value req)]\<rparr>
         \<and> href \<lparr>url_origin = req_origin req, url_pathname = ''/auth/v1/login'',
                   url_searchParams = [(''from'', from_value req)]\<rparr>
             = req_origin req @ ''/auth/v1/login?from='' @ form_encode (from_value req)
         \<and> from_value req =
             pathname req @
             (if searchParams req = [] then []
              else ''?'' @ searchParams_toString (searchParams req))
         \<and> (matcher (pathname req) \<longrightarrow> route_guard req = proxy req)"
  using proxy_redirect [OF assms] href_from from_value_eq
  by (simp add: route_guard_def)

theorem guard_redirect_carries_from_witness:
  "startsWith (pathname reports_request) ''/dashboard'' \<and> auth reports_request = None
   \<and> matcher (pathname reports_request)
   \<and> route_guard reports_request =
       Redirect \<lparr>url_origin = ''http://localhost:3000'', url_pathname = ''/auth/v1/login'',
                 url_searchParams = [(''from'', ''/dashboard/reports?x=1'')]\<rparr>
   \<and> href \<lparr>url_origin = ''http://localhost:3000'', url_pathname = ''/auth/v1/login'',
             url_searchParams = [(''from'', ''/dashboard/reports?x=1'')]\<rparr>
       = ''http://localhost:3000/auth/v1/login?from=%2Fdashboard%2Freports%3Fx%3D1''"
proof -
  have h1: "startsWith (pathname reports_request) ''/dashboard''"
    by (simp add: reports_request_def startsWith_def)
  have h2: "auth reports_request = None"
    by (simp add: reports_request_def)
  have m: "matcher (pathname reports_request)"
    by (simp add: reports_request_def matcher_def startsWith_def)
  have fv: "from_value reports_request = ''/dashboard/reports?x=1''"
    unfolding from_value_def reports_request_def searchParams_toString_def by code_simp
  have og: "req_origin reports_request = ''http://localhost:3000''"
    by (simp add: reports_request_def)
  have enc: "form_encode ''/dashboard/reports?x=1'' = ''%2Fdashboard%2Freports%3Fx%3D1''"
    by code_simp
  have a: "proxy reports_request =
             Redirect \<lparr>url_origin = ''http://localhost:3000'', url_pathname = ''/auth/v1/login'',
                       url_searchParams = [(''from'', ''/dashboard/reports?x=1'')]\<rparr>"
    using guard_redirect_carries_from [OF h1 h2] unfolding fv og by (rule conjunct1)
  have b: "href \<lparr>url_origin = ''http://localhost:3000'', url_pathname = ''/auth/v1/login'',
                  url_searchParams = [(''from'', ''/dashboard/reports?x=1'')]\<rparr>
             = ''http://localhost:3000'' @ ''/auth/v1/login?from='' @ ''%2Fdashboard%2Freports%3Fx%3D1''"
    using guard_redirect_carries_from [OF h1 h2] unfolding fv og enc
    by (rule conjunct1 [OF conjunct2])
  have c: "route_guard reports_request = proxy reports_request"
    using m by (simp add: route_guard_def)
  show ?thesis
    using h1 h2 m a b c by simp
qed

lemma proxy_next: "\<not> startsWith (pathname req) ''/dashboard'' \<Longrightarrow> proxy req = Next"
  unfolding proxy_def by simp

lemma route_guard_next: "\<not> startsWith (pathname req) ''/dashboard'' \<Longrightarrow> route_guard req = Next"
  unfolding route_guard_def by (simp add: proxy_next)

lemma route_guard_redirect: "route_guard req = Redirect u \<Longrightarrow> proxy req = Redirect u"
  unfolding route_guard_def by (simp split: if_splits)

text \<open>
  Claim C6. The route guard never intercepts the login entry point. A request whose
  path does not start with \<open>/dashboard\<close>, or which the configured pattern does not
  cover, proceeds without a redirect whatever its authentication state; this holds in
  particular for the path \<open>/auth/v1/login\<close>. Every redirect the guard issues goes to
  that path, and the request that follows the redirect proceeds: there is no redirect
  loop.
\<close>

theorem guard_never_intercepts_login:
  "(\<not> startsWith (pathname req) ''/dashboard'' \<longrightarrow> proxy req = Next \<and> route_guard req = Next)
   \<and> (\<not> matcher (pathname req) \<longrightarrow> route_guard req = Next)
   \<and> (pathname req = ''/auth/v1/login'' \<longrightarrow> proxy req = Next \<and> route_guard req = Next)
   \<and> (\<forall>u. proxy req = Redirect u \<or> route_guard req = Redirect u \<longrightarrow>
          url_pathname u = ''/auth/v1/login''
          \<and> route_guard \<lparr>req_origin = url_origin u, pathname = url_pathname u,
                          searchParams = url_searchParams u, auth = auth req\<rparr> = Next)"
proof (intro conjI impI allI)
  assume "\<not> startsWith (pathname req) ''/dashboard''"
  then show "proxy req = Next" and "route_guard req = Next"
    by (simp_all add: proxy_next route_guard_next)
next
  assume "\<not> matcher (pathname req)"
  then show "route_guard req = Next" by (simp add: route_guard_def)
next
  assume "pathname req = ''/auth/v1/login''"
  then have "\<not> startsWith (pathname req) ''/dashboard''"
    using login_path_not_dashboard by simp
  then show "proxy req = Next" and "route_guard req = Next"
    by (simp_all add: proxy_next route_guard_next)
next
  fix u assume "proxy req = Redirect u \<or> route_guard req = Redirect u"
  then have r: "proxy req = Redirect u" using route_guard_redirect by blast
  with proxy_cases [of req]
  show p: "url_pathname u = ''/auth/v1/login''" by auto
  have "\<not> startsWith (pathname \<lparr>req_origin = url_origin u, pathname = url_pathname u,
                          searchParams = url_searchParams u, auth = auth req\<rparr>) ''/dashboard''"
    using p login_path_not_dashboard by simp
  then show "route_guard \<lparr>req_origin = url_origin u, pathname = url_pathname u,
                          searchParams = url_searchParams u, auth = auth req\<rparr> = Next"
    by (rule route_guard_next)
qed

theorem guard_never_intercepts_login_witness:
  "pathname login_request = ''/auth/v1/login'' \<and> auth login_request = None
   \<and> \<not> startsWith (pathname login_request) ''/dashboard''
   \<and> \<not> matcher (pathname login_request)
   \<and> proxy login_request = Next \<and> route_guard login_request = Next
   \<and> route_guard reports_request =
        Redirect \<lparr>url_origin = ''http://localhost:3000'', url_pathname = ''/auth/v1/login'',
                  url_searchParams = [(''from'', ''/dashboard/reports?x=1'')]\<rparr>
   \<and> route_guard \<lparr>req_origin = ''http://localhost:3000'', pathname = ''/auth/v1/login'',
                   searchParams = [(''from'', ''/dashboard/reports?x=1'')], auth = None\<rparr> = Next"
proof -
  have p: "pathname login_request = ''/auth/v1/login''"
    by (simp add: login_request_def)
  have a: "auth login_request = None"
    by (simp add: login_request_def)
  have s: "\<not> startsWith (pathname login_request) ''/dashboard''"
    unfolding p by (rule login_path_not_dashboard)
  have m: "\<not> matcher (pathname login_request)"
    unfolding p by (simp add: matcher_def startsWith_def)
  have n: "proxy login_request = Next \<and> route_guard login_request = Next"
    using guard_never_intercepts_login [of login_request] p by blast
  have fv: "from_value reports_request = ''/dashboard/reports?x=1''"
    unfolding from_value_def reports_request_def searchParams_toString_def by code_simp
  have r: "route_guard reports_request =
        Redirect \<lparr>url_origin = ''http://localhost:3000'', url_pathname = ''/auth/v1/login'',
                  url_searchParams = [(''from'', ''/dashboard/reports?x=1'')]\<rparr>"
    unfolding route_guard_def proxy_def new_URL_def Let_def fv
    by (simp add: reports_request_def matcher_def startsWith_def)
  have ar: "auth reports_request = None" by (simp add: reports_request_def)
  have f: "route_guard \<lparr>req_origin = ''http://localhost:3000'', pathname = ''/auth/v1/login'',
                   searchParams = [(''from'', ''/dashboard/reports?x=1'')], auth = None\<rparr> = Next"
    using guard_never_intercepts_login [of reports_request] r ar by fastforce
  show ?thesis using p a s m n r f by blast
qed

lemma dashboard_same_origin: "startsWith v ''/dashboard'' \<Longrightarrow> same_origin_path v"
  unfolding startsWith_iff same_origin_path_def by auto

text \<open>
  Claim C10. Whenever the route guard redirects, the \<open>from\<close> value it attaches is the
  requested path followed by the optional query string; it starts with
  \<open>/dashboard\<close> and is a path on the same origin, never an absolute address.
\<close>

theorem guard_from_is_dashboard_path:
  assumes "proxy req = Redirect u \<or> route_guard req = Redirect u"
  shows "url_searchParams u = [(''from'', from_value req)]
         \<and> from_value req =
             pathname req @
             (if searchParams req = [] then []
              else ''?'' @ searchParams_toString (searchParams req))
         \<and> startsWith (from_value req) ''/dashboard''
         \<and> same_origin_path (from_value req)"
proof -
  from assms have r: "proxy req = Redirect u" using route_guard_redirect by blast
  with proxy_cases [of req]
  have u: "url_searchParams u = [(''from'', from_value req)]"
    and d: "startsWith (pathname req) ''/dashboard''" by auto
  from d have "startsWith (from_value req) ''/dashboard''"
    unfolding from_value_eq startsWith_iff by auto
  then show ?thesis using u from_value_eq dashboard_same_origin by blast
qed

theorem guard_from_is_dashboard_path_witness:
  "proxy reports_request =
     Redirect \<lparr>url_origin = ''http://localhost:3000'', url_pathname = ''/auth/v1/login'',
               url_searchParams = [(''from'', ''/dashboard/reports?x=1'')]\<rparr>
   \<and> startsWith ''/dashboard/reports?x=1'' ''/dashboard''
   \<and> same_origin_path ''/dashboard/reports?x=1''"
proof -
  have fv: "from_value reports_request = ''/dashboard/reports?x=1''"
    unfolding from_value_def reports_request_def searchParams_toString_def by code_simp
  have r: "proxy reports_request =
     Redirect \<lparr>url_origin = ''http://localhost:3000'', url_pathname = ''/auth/v1/login'',
               url_searchParams = [(''from'', ''/dashboard/reports?x=1'')]\<rparr>"
    unfolding proxy_def new_URL_def Let_def fv
    by (simp add: reports_request_def startsWith_def)
  have "startsWith (from_value reports_request) ''/dashboard''
        \<and> same_origin_path (from_value reports_request)"
    using guard_from_is_dashboard_path [of reports_request, OF disjI1 [OF r]] by blast
  then show ?thesis using r unfolding fv by blast
qed

section \<open>Properties of the login flow\<close>

lemma loginSchema_parse_Inr:
  assumes "loginSchema_parse isEm fd = Inr d"
  shows "fd_email fd = JString (d_email d)" and "isEm (d_email d)"
    and "fd_password fd = JString (d_password d)" and "6 \<le> length (d_password d)"
    and "z_string_optional ''from'' (or_default (fd_from fd)) = Inr (d_from d)"
  using assms unfolding loginSchema_parse_def z_string_email_def z_string_min_def Let_def
  by (auto split: jsval.splits if_splits sum.splits)

lemma or_default_from:
  assumes "z_string_optional ''from'' (or_default v) = Inr r"
  shows "r = Some (case v of JString f \<Rightarrow> if f = [] then ''/dashboard/default'' else f
                   | _ \<Rightarrow> ''/dashboard/default'')"
  using assms unfolding z_string_optional_def or_default_def
  by (auto split: jsval.splits if_splits)

lemma authorize_safeParse_strings:
  "isEm e \<Longrightarrow> 6 \<le> length p \<Longrightarrow>
   authorize_safeParse isEm \<lparr>c_email = JString e, c_password = JString p\<rparr> = Inr (e, p)"
  unfolding authorize_safeParse_def z_string_email_def z_string_min_def by simp

lemma authorize_no_record:
  assumes "authorize_safeParse (isEmail E) c = Inr (e, p)" and "findUnique E e = Inr None"
  shows "authorize E c =
           ([Log ''[AUTH] authorize called with:'' (LCreds c),
             Log ''[AUTH] Looking for user:'' (LStr e), FindUnique e,
             Log ''[AUTH] User not found'' LNone], Inr None)"
  using assms unfolding authorize_def by simp

lemma authorize_record:
  assumes "authorize_safeParse (isEmail E) c = Inr (e, p)" and "findUnique E e = Inr (Some u)"
  shows "authorize E c =
           ([Log ''[AUTH] authorize called with:'' (LCreds c),
             Log ''[AUTH] Looking for user:'' (LStr e), FindUnique e,
             Log ''[AUTH] User found, checking password'' LNone,
             BcryptCompare p (passwordHash u),
             Log ''[AUTH] Password valid:'' (LBool (bcrypt_compare E p (passwordHash u)))]
            @ (if bcrypt_compare E p (passwordHash u)
               then [Log ''[AUTH] Login successful for:'' (LStr (user_email u))] else []),
            if bcrypt_compare E p (passwordHash u)
            then Inr (Some \<lparr>au_id = user_id u, au_email = user_email u,
                             au_name = user_name u, au_role = user_role u\<rparr>)
            else Inr None)"
  using assms unfolding authorize_def Let_def by simp

lemma authorize_store_failure:
  assumes "authorize_safeParse (isEmail E) c = Inr (e, p)" and "findUnique E e = Inl x"
  shows "snd (authorize E c) = Inl (OtherError x)"
  using assms unfolding authorize_def by simp

lemma signIn_outcome:
  assumes "isEmail E e" and "6 \<le> length p"
  shows "fst (signIn E ''credentials'' \<lparr>o_email = e, o_password = p, redirectTo = r\<rparr> st) =
           (case findUnique E e of
              Inl x \<Rightarrow> Inl (AuthError ''CallbackRouteError'' x)
            | Inr None \<Rightarrow> Inl (AuthError ''CredentialsSignin'' [])
            | Inr (Some u) \<Rightarrow>
                if \<not> bcrypt_compare E p (passwordHash u) then Inl (AuthError ''CredentialsSignin'' [])
                else (case signing_error E of
                        Some x \<Rightarrow> Inl (AuthError ''JWTSessionError'' x)
                      | None \<Rightarrow> Inl (NextRedirect (case r of Some t \<Rightarrow> t | None \<Rightarrow> ''/''))))"
proof -
  have sp: "authorize_safeParse (isEmail E) \<lparr>c_email = JString e, c_password = JString p\<rparr> = Inr (e, p)"
    using assms by (rule authorize_safeParse_strings)
  show ?thesis
  proof (cases "findUnique E e")
    case (Inl x)
    then show ?thesis
      unfolding signIn_def authorize_def Let_def using sp by simp
  next
    case (Inr ou)
    show ?thesis
    proof (cases ou)
      case None
      with Inr show ?thesis
        unfolding signIn_def using authorize_no_record [OF sp] by simp
    next
      case (Some u)
      with Inr show ?thesis
        unfolding signIn_def using authorize_record [OF sp, of u]
        by (simp add: Let_def split: option.splits)
    qed
  qed
qed

lemma signIn_cookie:
  assumes "isEmail E e" and "6 \<le> length p"
  shows "cookie (snd (signIn E ''credentials'' \<lparr>o_email = e, o_password = p, redirectTo = r\<rparr> st)) =
           (case findUnique E e of
              Inr (Some u) \<Rightarrow>
                if bcrypt_compare E p (passwordHash u) \<and> signing_error E = None
                then Some \<lparr>claims = \<lparr>t_name = user_name u, t_email = Some (user_email u),
                                      t_picture = None, t_sub = Some (user_id u),
                                      t_role = Some (user_role u), t_id = Some (user_id u)\<rparr>,
                           issuedAt = now E, expiresAt = now E + maxAge E\<rparr>
                else cookie st
            | _ \<Rightarrow> cookie st)"
proof -
  have sp: "authorize_safeParse (isEmail E) \<lparr>c_email = JString e, c_password = JString p\<rparr> = Inr (e, p)"
    using assms by (rule authorize_safeParse_strings)
  show ?thesis
  proof (cases "findUnique E e")
    case (Inl x)
    then show ?thesis
      unfolding signIn_def authorize_def Let_def using sp by simp
  next
    case (Inr ou)
    show ?thesis
    proof (cases ou)
      case None
      with Inr show ?thesis
        unfolding signIn_def using authorize_no_record [OF sp] by simp
    next
      case (Some u)
      with Inr show ?thesis
        unfolding signIn_def using authorize_record [OF sp, of u]
        by (simp add: Let_def jwt_def default_token_def split: option.splits)
    qed
  qed
qed

lemma loginAction_invalid:
  "loginSchema_parse isEm fd = Inl is \<Longrightarrow> loginAction isEm sI prev fd st = (Inl (ZodError is), st)"
  unfolding loginAction_def catch_handler_def by simp

lemma loginAction_valid:
  assumes "loginSchema_parse isEm fd = Inr d"
  shows "loginAction isEm sI prev fd st =
           (case fst (sI ''credentials'' \<lparr>o_email = d_email d, o_password = d_password d, redirectTo = d_from d\<rparr> st) of
              Inl e \<Rightarrow> catch_handler e
            | Inr _ \<Rightarrow> Inr \<lparr>error = None, success = Some True\<rparr>,
            snd (sI ''credentials'' \<lparr>o_email = d_email d, o_password = d_password d, redirectTo = d_from d\<rparr> st))"
  using assms unfolding loginAction_def by (simp split: prod.splits sum.splits)

lemma login_valid:
  assumes "loginSchema_parse (isEmail E) fd = Inr d"
  shows "fst (login E prev fd st) =
           (case fst (signIn E ''credentials'' \<lparr>o_email = d_email d, o_password = d_password d, redirectTo = d_from d\<rparr> st) of
              Inl e \<Rightarrow> catch_handler e
            | Inr _ \<Rightarrow> Inr \<lparr>error = None, success = Some True\<rparr>)"
    and "snd (login E prev fd st) =
           snd (signIn E ''credentials'' \<lparr>o_email = d_email d, o_password = d_password d, redirectTo = d_from d\<rparr> st)"
  unfolding login_def loginAction_valid [OF assms] by simp_all

lemma login_rejected:
  assumes v: "loginSchema_parse (isEmail E) fd = Inr d"
    and r: "findUnique E (d_email d) = Inr None
            \<or> (\<exists>u. findUnique E (d_email d) = Inr (Some u)
                    \<and> \<not> bcrypt_compare E (d_password d) (passwordHash u))"
  shows "fst (login E prev fd st) = Inr \<lparr>error = Some ''Invalid email or password'', success = None\<rparr>"
    and "cookie (snd (login E prev fd st)) = cookie st"
proof -
  note p = loginSchema_parse_Inr [OF v]
  have "fst (signIn E ''credentials'' \<lparr>o_email = d_email d, o_password = d_password d, redirectTo = d_from d\<rparr> st)
          = Inl (AuthError ''CredentialsSignin'' [])"
    unfolding signIn_outcome [OF p(2) p(4)] using r by auto
  then show "fst (login E prev fd st) = Inr \<lparr>error = Some ''Invalid email or password'', success = None\<rparr>"
    unfolding login_valid(1) [OF v] by (simp add: catch_handler_def)
  show "cookie (snd (login E prev fd st)) = cookie st"
    unfolding login_valid(2) [OF v] signIn_cookie [OF p(2) p(4)] using r by auto
qed

lemma login_accepted:
  assumes v: "loginSchema_parse (isEmail E) fd = Inr d"
    and f: "findUnique E (d_email d) = Inr (Some u)"
    and c: "bcrypt_compare E (d_password d) (passwordHash u)"
    and s: "signing_error E = None"
  shows "fst (login E prev fd st) =
           Inl (NextRedirect (case fd_from fd of
                                JString x \<Rightarrow> if x = [] then ''/dashboard/default'' else x
                              | _ \<Rightarrow> ''/dashboard/default''))"
    and "cookie (snd (login E prev fd st)) =
           Some \<lparr>claims = \<lparr>t_name = user_name u, t_email = Some (user_email u),
                             t_picture = None, t_sub = Some (user_id u),
                             t_role = Some (user_role u), t_id = Some (user_id u)\<rparr>,
                  issuedAt = now E, expiresAt = now E + maxAge E\<rparr>"
proof -
  note p = loginSchema_parse_Inr [OF v]
  note fr = or_default_from [OF p(5)]
  show "fst (login E prev fd st) =
           Inl (NextRedirect (case fd_from fd of
                                JString x \<Rightarrow> if x = [] then ''/dashboard/default'' else x
                              | _ \<Rightarrow> ''/dashboard/default''))"
    unfolding login_valid(1) [OF v] signIn_outcome [OF p(2) p(4)] using f c s fr
    by (simp add: catch_handler_def)
  show "cookie (snd (login E prev fd st)) =
           Some \<lparr>claims = \<lparr>t_name = user_name u, t_email = Some (user_email u),
                             t_picture = None, t_sub = Some (user_id u),
                             t_role = Some (user_role u), t_id = Some (user_id u)\<rparr>,
                  issuedAt = now E, expiresAt = now E + maxAge E\<rparr>"
    unfolding login_valid(2) [OF v] signIn_cookie [OF p(2) p(4)] using f c s by simp
qed

lemma sample_isEmail: "isEmail sample_env = (\<lambda>s. CHR ''@'' \<in> set s)"
  and sample_findUnique: "findUnique sample_env = (\<lambda>e. if e = ''admin@example.com'' then Inr (Some admin) else Inr None)"
  and sample_compare: "bcrypt_compare sample_env = (\<lambda>p h. h = ''hash:'' @ p)"
  and sample_signing: "signing_error sample_env = None"
  and sample_now: "now sample_env = 1000"
  and sample_maxAge: "maxAge sample_env = 2592000"
  unfolding sample_env_def by simp_all

lemma parse_form:
  "isEm e \<Longrightarrow> 6 \<le> length p \<Longrightarrow>
   loginSchema_parse isEm (form e p JNull) = Inr \<lparr>d_email = e, d_password = p, d_from = Some ''/dashboard/default''\<rparr>"
  "isEm e \<Longrightarrow> 6 \<le> length p \<Longrightarrow> f \<noteq> [] \<Longrightarrow>
   loginSchema_parse isEm (form e p (JString f)) = Inr \<lparr>d_email = e, d_password = p, d_from = Some f\<rparr>"
  "isEm e \<Longrightarrow> 6 \<le> length p \<Longrightarrow>
   loginSchema_parse isEm (form e p (JString [])) = Inr \<lparr>d_email = e, d_password = p, d_from = Some ''/dashboard/default''\<rparr>"
  unfolding loginSchema_parse_def form_def z_string_email_def z_string_min_def
    z_string_optional_def or_default_def
  by simp_all

lemma sample_parse_ghost:
  "loginSchema_parse (isEmail sample_env) (form ''ghost@example.com'' ''admin123'' JNull)
     = Inr \<lparr>d_email = ''ghost@example.com'', d_password = ''admin123'', d_from = Some ''/dashboard/default''\<rparr>"
  by (rule parse_form(1)) (simp_all add: sample_isEmail)

lemma sample_parse_wrong:
  "loginSchema_parse (isEmail sample_env) (form ''admin@example.com'' ''letmein'' JNull)
     = Inr \<lparr>d_email = ''admin@example.com'', d_password = ''letmein'', d_from = Some ''/dashboard/default''\<rparr>"
  by (rule parse_form(1)) (simp_all add: sample_isEmail)

lemma sample_parse_admin:
  "loginSchema_parse (isEmail sample_env) (form ''admin@example.com'' ''admin123'' (JString ''/dashboard/reports?x=1''))
     = Inr \<lparr>d_email = ''admin@example.com'', d_password = ''admin123'', d_from = Some ''/dashboard/reports?x=1''\<rparr>"
  by (rule parse_form(2)) (simp_all add: sample_isEmail)

lemma sample_parse_admin_default:
  "loginSchema_parse (isEmail sample_env) (form ''admin@example.com'' ''admin123'' JNull)
     = Inr \<lparr>d_email = ''admin@example.com'', d_password = ''admin123'', d_from = Some ''/dashboard/default''\<rparr>"
  by (rule parse_form(1)) (simp_all add: sample_isEmail)

lemma sample_parse_admin_empty:
  "loginSchema_parse (isEmail sample_env) (form ''admin@example.com'' ''admin123'' (JString []))
     = Inr \<lparr>d_email = ''admin@example.com'', d_password = ''admin123'', d_from = Some ''/dashboard/default''\<rparr>"
  by (rule parse_form(3)) (simp_all add: sample_isEmail)

lemma sample_find_ghost: "findUnique sample_env ''ghost@example.com'' = Inr None"
  by (simp add: sample_findUnique)

lemma sample_find_admin: "findUnique sample_env ''admin@example.com'' = Inr (Some admin)"
  by (simp add: sample_findUnique)

lemma sample_compare_wrong: "\<not> bcrypt_compare sample_env ''letmein'' (passwordHash admin)"
  by (simp add: sample_compare admin_def)

lemma sample_compare_right: "bcrypt_compare sample_env ''admin123'' (passwordHash admin)"
  by (simp add: sample_compare admin_def)

text \<open>
  Claim C1. Take two login attempts that pass validation: one whose e-mail has no
  record in the store, one whose e-mail has a record but whose password the verifier
  rejects. \<open>authorize\<close> returns null for both, and the login action returns the same
  result for both: the error state with the one message
  \<open>Invalid email or password\<close> and nothing else, so the result does not tell the two
  cases apart. Neither attempt sets the session cookie.
\<close>

theorem unknown_email_and_wrong_password_alike:
  assumes v1: "loginSchema_parse (isEmail E) fd1 = Inr d1"
    and n1: "findUnique E (d_email d1) = Inr None"
    and v2: "loginSchema_parse (isEmail E) fd2 = Inr d2"
    and f2: "findUnique E (d_email d2) = Inr (Some u)"
    and w2: "\<not> bcrypt_compare E (d_password d2) (passwordHash u)"
  shows "snd (authorize E \<lparr>c_email = fd_email fd1, c_password = fd_password fd1\<rparr>) = Inr None
       \<and> snd (authorize E \<lparr>c_email = fd_email fd2, c_password = fd_password fd2\<rparr>) = Inr None
       \<and> fst (login E prev1 fd1 st1) = Inr \<lparr>error = Some ''Invalid email or password'', success = None\<rparr>
       \<and> fst (login E prev2 fd2 st2) = Inr \<lparr>error = Some ''Invalid email or password'', success = None\<rparr>
       \<and> fst (login E prev1 fd1 st1) = fst (login E prev2 fd2 st2)
       \<and> cookie (snd (login E prev1 fd1 st1)) = cookie st1
       \<and> cookie (snd (login E prev2 fd2 st2)) = cookie st2"
proof -
  note p1 = loginSchema_parse_Inr [OF v1]
  note p2 = loginSchema_parse_Inr [OF v2]
  have s1: "authorize_safeParse (isEmail E) \<lparr>c_email = fd_email fd1, c_password = fd_password fd1\<rparr>
              = Inr (d_email d1, d_password d1)"
    unfolding p1(1) p1(3) using p1(2) p1(4) by (rule authorize_safeParse_strings)
  have s2: "authorize_safeParse (isEmail E) \<lparr>c_email = fd_email fd2, c_password = fd_password fd2\<rparr>
              = Inr (d_email d2, d_password d2)"
    unfolding p2(1) p2(3) using p2(2) p2(4) by (rule authorize_safeParse_strings)
  have a1: "snd (authorize E \<lparr>c_email = fd_email fd1, c_password = fd_password fd1\<rparr>) = Inr None"
    using authorize_no_record [OF s1 n1] by simp
  have a2: "snd (authorize E \<lparr>c_email = fd_email fd2, c_password = fd_password fd2\<rparr>) = Inr None"
    using authorize_record [OF s2 f2] w2 by simp
  have r2: "findUnique E (d_email d2) = Inr None
            \<or> (\<exists>u. findUnique E (d_email d2) = Inr (Some u)
                    \<and> \<not> bcrypt_compare E (d_password d2) (passwordHash u))"
    using f2 w2 by blast
  have r1: "findUnique E (d_email d1) = Inr None
            \<or> (\<exists>u. findUnique E (d_email d1) = Inr (Some u)
                    \<and> \<not> bcrypt_compare E (d_password d1) (passwordHash u))"
    using n1 by blast
  show ?thesis
    using a1 a2 login_rejected [OF v1 r1] login_rejected [OF v2 r2] by simp
qed

theorem unknown_email_and_wrong_password_alike_witness:
  "findUnique sample_env ''ghost@example.com'' = Inr None
   \<and> findUnique sample_env ''admin@example.com'' = Inr (Some admin)
   \<and> \<not> bcrypt_compare sample_env ''letmein'' (passwordHash admin)
   \<and> fst (login sample_env prev0 (form ''ghost@example.com'' ''admin123'' JNull) state0)
       = Inr \<lparr>error = Some ''Invalid email or password'', success = None\<rparr>
   \<and> fst (login sample_env prev0 (form ''admin@example.com'' ''letmein'' JNull) state0)
       = Inr \<lparr>error = Some ''Invalid email or password'', success = None\<rparr>"
proof -
  have n1: "findUnique sample_env
              (d_email \<lparr>d_email = ''ghost@example.com'', d_password = ''admin123'', d_from = Some ''/dashboard/default''\<rparr>)
            = Inr None"
    using sample_find_ghost by simp
  have f2: "findUnique sample_env
              (d_email \<lparr>d_email = ''admin@example.com'', d_password = ''letmein'', d_from = Some ''/dashboard/default''\<rparr>)
            = Inr (Some admin)"
    using sample_find_admin by simp
  have w2: "\<not> bcrypt_compare sample_env
              (d_password \<lparr>d_email = ''admin@example.com'', d_password = ''letmein'', d_from = Some ''/dashboard/default''\<rparr>)
              (passwordHash admin)"
    using sample_compare_wrong by simp
  show ?thesis
    using unknown_email_and_wrong_password_alike
            [OF sample_parse_ghost n1 sample_parse_wrong f2 w2, of prev0 state0 prev0 state0]
      sample_find_ghost sample_find_admin sample_compare_wrong
    by blast
qed

text \<open>
  Claim C2, as stated, fails: with the sample store, the only collaborator call made
  for the unknown e-mail is the lookup, while for the known e-mail with a wrong
  password the lookup is followed by the hash comparison.
\<close>

theorem lookup_miss_skips_verification:
  "calls (fst (authorize sample_env \<lparr>c_email = JString ''ghost@example.com'', c_password = JString ''letmein''\<rparr>))
     = [FindUnique ''ghost@example.com'']
   \<and> calls (fst (authorize sample_env \<lparr>c_email = JString ''admin@example.com'', c_password = JString ''letmein''\<rparr>))
     = [FindUnique ''admin@example.com'', BcryptCompare ''letmein'' ''hash:admin123'']
   \<and> length (calls (fst (authorize sample_env \<lparr>c_email = JString ''ghost@example.com'', c_password = JString ''letmein''\<rparr>)))
     \<noteq> length (calls (fst (authorize sample_env \<lparr>c_email = JString ''admin@example.com'', c_password = JString ''letmein''\<rparr>)))"
proof -
  have s1: "authorize_safeParse (isEmail sample_env) \<lparr>c_email = JString ''ghost@example.com'', c_password = JString ''letmein''\<rparr>
              = Inr (''ghost@example.com'', ''letmein'')"
    by (rule authorize_safeParse_strings) (simp_all add: sample_isEmail)
  have s2: "authorize_safeParse (isEmail sample_env) \<lparr>c_email = JString ''admin@example.com'', c_password = JString ''letmein''\<rparr>
              = Inr (''admin@example.com'', ''letmein'')"
    by (rule authorize_safeParse_strings) (simp_all add: sample_isEmail)
  have c1: "calls (fst (authorize sample_env \<lparr>c_email = JString ''ghost@example.com'', c_password = JString ''letmein''\<rparr>))
     = [FindUnique ''ghost@example.com'']"
    unfolding authorize_no_record [OF s1 sample_find_ghost] by (simp add: calls_def)
  have c2: "calls (fst (authorize sample_env \<lparr>c_email = JString ''admin@example.com'', c_password = JString ''letmein''\<rparr>))
     = [FindUnique ''admin@example.com'', BcryptCompare ''letmein'' ''hash:admin123'']"
    unfolding authorize_record [OF s2 sample_find_admin] by (simp add: calls_def admin_def)
  show ?thesis unfolding c1 c2 by simp
qed

text \<open>
  Claim C2, amended. When the lookup finds no record, \<open>authorize\<close> returns null at
  once: the lookup is the only collaborator call and the password verifier is not run.
  When a record is found and the password is wrong, the lookup is followed by one call
  of the verifier. Both cases return null.
\<close>

theorem authorize_short_circuits:
  assumes s1: "authorize_safeParse (isEmail E) c1 = Inr (e1, p1)"
    and n1: "findUnique E e1 = Inr None"
    and s2: "authorize_safeParse (isEmail E) c2 = Inr (e2, p2)"
    and f2: "findUnique E e2 = Inr (Some u)"
    and w2: "\<not> bcrypt_compare E p2 (passwordHash u)"
  shows "snd (authorize E c1) = Inr None
       \<and> snd (authorize E c2) = Inr None
       \<and> calls (fst (authorize E c1)) = [FindUnique e1]
       \<and> calls (fst (authorize E c2)) = [FindUnique e2, BcryptCompare p2 (passwordHash u)]"
  unfolding authorize_no_record [OF s1 n1] authorize_record [OF s2 f2]
  using w2 by (simp add: calls_def)

theorem authorize_short_circuits_witness:
  "findUnique sample_env ''ghost@example.com'' = Inr None
   \<and> findUnique sample_env ''admin@example.com'' = Inr (Some admin)
   \<and> \<not> bcrypt_compare sample_env ''letmein'' (passwordHash admin)
   \<and> snd (authorize sample_env \<lparr>c_email = JString ''ghost@example.com'', c_password = JString ''letmein''\<rparr>) = Inr None
   \<and> snd (authorize sample_env \<lparr>c_email = JString ''admin@example.com'', c_password = JString ''letmein''\<rparr>) = Inr None
   \<and> calls (fst (authorize sample_env \<lparr>c_email = JString ''ghost@example.com'', c_password = JString ''letmein''\<rparr>))
       = [FindUnique ''ghost@example.com'']
   \<and> calls (fst (authorize sample_env \<lparr>c_email = JString ''admin@example.com'', c_password = JString ''letmein''\<rparr>))
       = [FindUnique ''admin@example.com'', BcryptCompare ''letmein'' (passwordHash admin)]"
proof -
  have s1: "authorize_safeParse (isEmail sample_env) \<lparr>c_email = JString ''ghost@example.com'', c_password = JString ''letmein''\<rparr>
              = Inr (''ghost@example.com'', ''letmein'')"
    by (rule authorize_safeParse_strings) (simp_all add: sample_isEmail)
  have s2: "authorize_safeParse (isEmail sample_env) \<lparr>c_email = JString ''admin@example.com'', c_password = JString ''letmein''\<rparr>
              = Inr (''admin@example.com'', ''letmein'')"
    by (rule authorize_safeParse_strings) (simp_all add: sample_isEmail)
  show ?thesis
    using authorize_short_circuits [OF s1 sample_find_ghost s2 sample_find_admin sample_compare_wrong]
      sample_find_ghost sample_find_admin sample_compare_wrong
    by blast
qed

text \<open>
  Claim C3, at the input where the code departs from it: for the form with e-mail
  \<open>not-an-email\<close> and password \<open>abc\<close> the login action does not return a
  state. The \<open>ZodError\<close> raised by \<open>loginSchema.parse\<close> is not an
  \<open>AuthError\<close>, so the \<open>catch\<close> block throws it again; \<open>signIn\<close> is never
  called and the state is unchanged.
\<close>

theorem loginAction_rethrows_validation_error:
  "loginAction (isEmail sample_env) sI prev (form ''not-an-email'' ''abc'' JNull) st
     = (Inl (ZodError [Issue ''email'' ''Invalid email address'',
                       Issue ''password'' ''Password must be at least 6 characters'']), st)"
proof -
  have "loginSchema_parse (isEmail sample_env) (form ''not-an-email'' ''abc'' JNull)
          = Inl [Issue ''email'' ''Invalid email address'',
                 Issue ''password'' ''Password must be at least 6 characters'']"
    unfolding loginSchema_parse_def form_def z_string_email_def z_string_min_def
      z_string_optional_def or_default_def sample_isEmail
    by simp
  then show ?thesis by (rule loginAction_invalid)
qed

text \<open>
  Claim C4. For a login attempt that passes validation, whose e-mail has a record in
  the store and whose password the verifier accepts for that record's hash (and with a
  working signer), \<open>authorize\<close> returns \<open>{id, email, name, role}\<close> of the record,
  the login ends in the success redirect, and the session token issued carries exactly
  those values: id (also as subject), e-mail, name and role of the record. The session
  decoded from that token shows the same four values.
\<close>

theorem login_success_issues_claims:
  assumes v: "loginSchema_parse (isEmail E) fd = Inr d"
    and f: "findUnique E (d_email d) = Inr (Some u)"
    and c: "bcrypt_compare E (d_password d) (passwordHash u)"
    and s: "signing_error E = None"
  shows "snd (authorize E \<lparr>c_email = fd_email fd, c_password = fd_password fd\<rparr>)
           = Inr (Some \<lparr>au_id = user_id u, au_email = user_email u,
                         au_name = user_name u, au_role = user_role u\<rparr>)
       \<and> (\<exists>t. fst (login E prev fd st) = Inl (NextRedirect t))
       \<and> cookie (snd (login E prev fd st)) =
           Some \<lparr>claims = \<lparr>t_name = user_name u, t_email = Some (user_email u),
                             t_picture = None, t_sub = Some (user_id u),
                             t_role = Some (user_role u), t_id = Some (user_id u)\<rparr>,
                  issuedAt = now E, expiresAt = now E + maxAge E\<rparr>
       \<and> (0 < maxAge E \<longrightarrow>
            auth_session E (snd (login E prev fd st)) =
              Some \<lparr>s_user = Some \<lparr>su_name = user_name u, su_email = Some (user_email u),
                                     su_image = None, su_role = Some (user_role u),
                                     su_id = Some (user_id u)\<rparr>,
                     s_expires = now E + maxAge E\<rparr>)"
proof -
  note p = loginSchema_parse_Inr [OF v]
  have sp: "authorize_safeParse (isEmail E) \<lparr>c_email = fd_email fd, c_password = fd_password fd\<rparr>
              = Inr (d_email d, d_password d)"
    unfolding p(1) p(3) using p(2) p(4) by (rule authorize_safeParse_strings)
  have a: "snd (authorize E \<lparr>c_email = fd_email fd, c_password = fd_password fd\<rparr>)
           = Inr (Some \<lparr>au_id = user_id u, au_email = user_email u,
                         au_name = user_name u, au_role = user_role u\<rparr>)"
    using authorize_record [OF sp f] c by simp
  note l = login_accepted [OF v f c s, of prev st]
  have r: "\<exists>t. fst (login E prev fd st) = Inl (NextRedirect t)"
    using l(1) by blast
  have k: "0 < maxAge E \<longrightarrow>
            auth_session E (snd (login E prev fd st)) =
              Some \<lparr>s_user = Some \<lparr>su_name = user_name u, su_email = Some (user_email u),
                                     su_image = None, su_role = Some (user_role u),
                                     su_id = Some (user_id u)\<rparr>,
                     s_expires = now E + maxAge E\<rparr>"
    unfolding auth_session_def l(2) by (simp add: session_callback_def)
  show ?thesis using a r l(2) k by blast
qed

theorem login_success_issues_claims_witness:
  "findUnique sample_env ''admin@example.com'' = Inr (Some admin)
   \<and> bcrypt_compare sample_env ''admin123'' (passwordHash admin)
   \<and> signing_error sample_env = None
   \<and> cookie (snd (login sample_env prev0
                    (form ''admin@example.com'' ''admin123'' (JString ''/dashboard/reports?x=1'')) state0)) =
        Some \<lparr>claims = \<lparr>t_name = Some ''Admin'', t_email = Some ''admin@example.com'',
                          t_picture = None, t_sub = Some ''u1'',
                          t_role = Some ''admin'', t_id = Some ''u1''\<rparr>,
               issuedAt = 1000, expiresAt = 2593000\<rparr>"
proof -
  have f: "findUnique sample_env
             (d_email \<lparr>d_email = ''admin@example.com'', d_password = ''admin123'', d_from = Some ''/dashboard/reports?x=1''\<rparr>)
           = Inr (Some admin)"
    using sample_find_admin by simp
  have c: "bcrypt_compare sample_env
             (d_password \<lparr>d_email = ''admin@example.com'', d_password = ''admin123'', d_from = Some ''/dashboard/reports?x=1''\<rparr>)
             (passwordHash admin)"
    using sample_compare_right by simp
  have "cookie (snd (login sample_env prev0
                    (form ''admin@example.com'' ''admin123'' (JString ''/dashboard/reports?x=1'')) state0)) =
          Some \<lparr>claims = \<lparr>t_name = user_name admin, t_email = Some (user_email admin),
                             t_picture = None, t_sub = Some (user_id admin),
                             t_role = Some (user_role admin), t_id = Some (user_id admin)\<rparr>,
                  issuedAt = now sample_env, expiresAt = now sample_env + maxAge sample_env\<rparr>"
    using login_success_issues_claims [OF sample_parse_admin f c sample_signing, of prev0 state0]
    by blast
  then show ?thesis
    using sample_find_admin sample_compare_right sample_signing
    by (simp add: admin_def sample_now sample_maxAge)
qed

text \<open>
  Claim C7. Whatever \<open>signIn\<close> is, once validation has passed: if it throws an
  \<open>AuthError\<close> of any type other than \<open>CredentialsSignin\<close>, the login action
  returns the error state with the fixed message
  \<open>Something went wrong. Please try again.\<close>, in which the error's internal detail
  does not occur; if it throws anything that is not an \<open>AuthError\<close>, such as the
  framework's redirect instruction after a successful sign-in, the action throws the
  same thing again.
\<close>

theorem loginAction_error_mapping:
  assumes v: "loginSchema_parse isEm fd = Inr d"
    and r: "sI ''credentials'' \<lparr>o_email = d_email d, o_password = d_password d, redirectTo = d_from d\<rparr> st = (Inl e, st')"
  shows "(\<forall>t x. e = AuthError t x \<longrightarrow> t \<noteq> ''CredentialsSignin'' \<longrightarrow>
            loginAction isEm sI prev fd st =
              (Inr \<lparr>error = Some ''Something went wrong. Please try again.'', success = None\<rparr>, st'))
       \<and> ((\<forall>t x. e \<noteq> AuthError t x) \<longrightarrow> loginAction isEm sI prev fd st = (Inl e, st'))"
  unfolding loginAction_valid [OF v] r
  by (cases e) (simp_all add: catch_handler_def)

theorem loginAction_error_mapping_witness:
  "fst (signIn store_down_env ''credentials''
          \<lparr>o_email = ''admin@example.com'', o_password = ''admin123'', redirectTo = Some ''/dashboard/default''\<rparr> state0)
     = Inl (AuthError ''CallbackRouteError'' ''connect ECONNREFUSED 10.0.0.5:5432'')
   \<and> fst (login store_down_env prev0 (form ''admin@example.com'' ''admin123'' JNull) state0)
       = Inr \<lparr>error = Some ''Something went wrong. Please try again.'', success = None\<rparr>
   \<and> fst (signIn sample_env ''credentials''
          \<lparr>o_email = ''admin@example.com'', o_password = ''admin123'', redirectTo = Some ''/dashboard/default''\<rparr> state0)
     = Inl (NextRedirect ''/dashboard/default'')
   \<and> fst (login sample_env prev0 (form ''admin@example.com'' ''admin123'' JNull) state0)
       = Inl (NextRedirect ''/dashboard/default'')"
proof -
  let ?d = "\<lparr>d_email = ''admin@example.com'', d_password = ''admin123'', d_from = Some ''/dashboard/default''\<rparr>"
  let ?o = "\<lparr>o_email = ''admin@example.com'', o_password = ''admin123'', redirectTo = Some ''/dashboard/default''\<rparr>"
  have em: "isEmail store_down_env = isEmail sample_env"
    by (simp add: store_down_env_def)
  have ie: "isEmail sample_env ''admin@example.com''" by (simp add: sample_isEmail)
  have ie': "isEmail store_down_env ''admin@example.com''" unfolding em by (rule ie)
  have ln: "6 \<le> length ''admin123''" by simp
  have fd: "findUnique store_down_env ''admin@example.com'' = Inl ''connect ECONNREFUSED 10.0.0.5:5432''"
    by (simp add: store_down_env_def)
  have o1: "fst (signIn store_down_env ''credentials'' ?o state0)
              = Inl (AuthError ''CallbackRouteError'' ''connect ECONNREFUSED 10.0.0.5:5432'')"
    unfolding signIn_outcome [OF ie' ln] fd by simp
  have o2: "fst (signIn sample_env ''credentials'' ?o state0) = Inl (NextRedirect ''/dashboard/default'')"
    unfolding signIn_outcome [OF ie ln] sample_find_admin
    using sample_compare_right sample_signing by simp
  have v1: "loginSchema_parse (isEmail store_down_env) (form ''admin@example.com'' ''admin123'' JNull) = Inr ?d"
    unfolding em by (rule sample_parse_admin_default)
  have h1: "signIn store_down_env ''credentials''
              \<lparr>o_email = d_email ?d, o_password = d_password ?d, redirectTo = d_from ?d\<rparr> state0
            = (Inl (AuthError ''CallbackRouteError'' ''connect ECONNREFUSED 10.0.0.5:5432''),
               snd (signIn store_down_env ''credentials'' ?o state0))"
    using o1 by (simp add: prod_eq_iff)
  have h2: "signIn sample_env ''credentials''
              \<lparr>o_email = d_email ?d, o_password = d_password ?d, redirectTo = d_from ?d\<rparr> state0
            = (Inl (NextRedirect ''/dashboard/default''),
               snd (signIn sample_env ''credentials'' ?o state0))"
    using o2 by (simp add: prod_eq_iff)
  have "login store_down_env prev0 (form ''admin@example.com'' ''admin123'' JNull) state0
          = (Inr \<lparr>error = Some ''Something went wrong. Please try again.'', success = None\<rparr>,
             snd (signIn store_down_env ''credentials'' ?o state0))"
    unfolding login_def
    using loginAction_error_mapping
            [where isEm = "isEmail store_down_env" and sI = "signIn store_down_env" and prev = prev0,
             OF v1 h1]
    by simp
  moreover have "login sample_env prev0 (form ''admin@example.com'' ''admin123'' JNull) state0
          = (Inl (NextRedirect ''/dashboard/default''),
             snd (signIn sample_env ''credentials'' ?o state0))"
    unfolding login_def
    using loginAction_error_mapping
            [where isEm = "isEmail sample_env" and sI = "signIn sample_env" and prev = prev0,
             OF sample_parse_admin_default h2]
    by simp
  ultimately show ?thesis using o1 o2 by simp
qed

text \<open>
  Claim C8, as stated, fails: a successful login whose form submits \<open>from\<close> as the
  empty string is redirected to \<open>/dashboard/default\<close>, not to the submitted value.
\<close>

theorem empty_from_goes_to_default:
  "fd_from (form ''admin@example.com'' ''admin123'' (JString [])) = JString []
   \<and> fst (login sample_env prev0 (form ''admin@example.com'' ''admin123'' (JString [])) state0)
       = Inl (NextRedirect ''/dashboard/default'')
   \<and> fst (login sample_env prev0 (form ''admin@example.com'' ''admin123'' (JString [])) state0)
       \<noteq> Inl (NextRedirect [])"
proof -
  have f: "findUnique sample_env
             (d_email \<lparr>d_email = ''admin@example.com'', d_password = ''admin123'', d_from = Some ''/dashboard/default''\<rparr>)
           = Inr (Some admin)"
    using sample_find_admin by simp
  have c: "bcrypt_compare sample_env
             (d_password \<lparr>d_email = ''admin@example.com'', d_password = ''admin123'', d_from = Some ''/dashboard/default''\<rparr>)
             (passwordHash admin)"
    using sample_compare_right by simp
  have "fst (login sample_env prev0 (form ''admin@example.com'' ''admin123'' (JString [])) state0)
       = Inl (NextRedirect ''/dashboard/default'')"
    unfolding login_accepted(1) [OF sample_parse_admin_empty f c sample_signing]
    by (simp add: form_def)
  then show ?thesis by (simp add: form_def)
qed

text \<open>
  Claim C8, amended. On a successful login the redirect target handed to \<open>signIn\<close>,
  and the target of the success redirect, is the submitted \<open>from\<close> value when that is
  a non-empty string; when no \<open>from\<close> was submitted, or it is the empty string, the
  target is the fixed path \<open>/dashboard/default\<close>.
\<close>

theorem login_redirect_target:
  assumes v: "loginSchema_parse (isEmail E) fd = Inr d"
    and f: "findUnique E (d_email d) = Inr (Some u)"
    and c: "bcrypt_compare E (d_password d) (passwordHash u)"
    and s: "signing_error E = None"
  shows "redirectTo \<lparr>o_email = d_email d, o_password = d_password d, redirectTo = d_from d\<rparr>
           = Some (case fd_from fd of
                     JString x \<Rightarrow> if x = [] then ''/dashboard/default'' else x
                   | _ \<Rightarrow> ''/dashboard/default'')
       \<and> fst (login E prev fd st) =
           Inl (NextRedirect (case fd_from fd of
                                JString x \<Rightarrow> if x = [] then ''/dashboard/default'' else x
                              | _ \<Rightarrow> ''/dashboard/default''))
       \<and> (\<forall>x. fd_from fd = JString x \<longrightarrow> x \<noteq> [] \<longrightarrow> fst (login E prev fd st) = Inl (NextRedirect x))
       \<and> (fd_from fd = JNull \<or> fd_from fd = JString [] \<longrightarrow>
            fst (login E prev fd st) = Inl (NextRedirect ''/dashboard/default''))"
proof -
  note p = loginSchema_parse_Inr [OF v]
  note fr = or_default_from [OF p(5)]
  note l = login_accepted(1) [OF v f c s, of prev st]
  show ?thesis using fr l by auto
qed

theorem login_redirect_target_witness:
  "fst (login sample_env prev0
          (form ''admin@example.com'' ''admin123'' (JString ''/dashboard/reports?x=1'')) state0)
     = Inl (NextRedirect ''/dashboard/reports?x=1'')
   \<and> fst (login sample_env prev0 (form ''admin@example.com'' ''admin123'' JNull) state0)
     = Inl (NextRedirect ''/dashboard/default'')"
proof -
  have f1: "findUnique sample_env
             (d_email \<lparr>d_email = ''admin@example.com'', d_password = ''admin123'', d_from = Some ''/dashboard/reports?x=1''\<rparr>)
           = Inr (Some admin)"
    using sample_find_admin by simp
  have c1: "bcrypt_compare sample_env
             (d_password \<lparr>d_email = ''admin@example.com'', d_password = ''admin123'', d_from = Some ''/dashboard/reports?x=1''\<rparr>)
             (passwordHash admin)"
    using sample_compare_right by simp
  have f2: "findUnique sample_env
             (d_email \<lparr>d_email = ''admin@example.com'', d_password = ''admin123'', d_from = Some ''/dashboard/default''\<rparr>)
           = Inr (Some admin)"
    using sample_find_admin by simp
  have c2: "bcrypt_compare sample_env
             (d_password \<lparr>d_email = ''admin@example.com'', d_password = ''admin123'', d_from = Some ''/dashboard/default''\<rparr>)
             (passwordHash admin)"
    using sample_compare_right by simp
  have a: "fd_from (form ''admin@example.com'' ''admin123'' (JString ''/dashboard/reports?x=1''))
             = JString ''/dashboard/reports?x=1''"
    by (simp add: form_def)
  have b: "fd_from (form ''admin@example.com'' ''admin123'' JNull) = JNull"
    by (simp add: form_def)
  have ne: "''/dashboard/reports?x=1'' \<noteq> []" by simp
  have "fst (login sample_env prev0
          (form ''admin@example.com'' ''admin123'' (JString ''/dashboard/reports?x=1'')) state0)
     = Inl (NextRedirect ''/dashboard/reports?x=1'')"
    using login_redirect_target [OF sample_parse_admin f1 c1 sample_signing, of prev0 state0] a ne
    by blast
  moreover have "fst (login sample_env prev0 (form ''admin@example.com'' ''admin123'' JNull) state0)
     = Inl (NextRedirect ''/dashboard/default'')"
    using login_redirect_target [OF sample_parse_admin_default f2 c2 sample_signing, of prev0 state0] b
    by blast
  ultimately show ?thesis by blast
qed

text \<open>
  Claim C9. A login attempt that does not end in the success redirect leaves the
  session cookie as it was. If the cookie has changed, then the form passed validation,
  the lookup found a record, the verifier accepted the password for that record's hash
  and signing did not fail: the session is issued only after all of these.
\<close>

theorem session_only_after_success:
  "((\<forall>t. fst (login E prev fd st) \<noteq> Inl (NextRedirect t)) \<longrightarrow>
      cookie (snd (login E prev fd st)) = cookie st)
   \<and> (cookie (snd (login E prev fd st)) \<noteq> cookie st \<longrightarrow>
        (\<exists>d u. loginSchema_parse (isEmail E) fd = Inr d
               \<and> findUnique E (d_email d) = Inr (Some u)
               \<and> bcrypt_compare E (d_password d) (passwordHash u)
               \<and> signing_error E = None))"
proof (cases "loginSchema_parse (isEmail E) fd")
  case (Inl iss)
  then have "login E prev fd st = (Inl (ZodError iss), st)"
    unfolding login_def by (rule loginAction_invalid)
  then show ?thesis by simp
next
  case (Inr d)
  note p = loginSchema_parse_Inr [OF Inr]
  note fr = or_default_from [OF p(5)]
  have k: "cookie (snd (login E prev fd st)) \<noteq> cookie st \<longrightarrow>
        (\<exists>u. findUnique E (d_email d) = Inr (Some u)
               \<and> bcrypt_compare E (d_password d) (passwordHash u)
               \<and> signing_error E = None)"
    unfolding login_valid(2) [OF Inr] signIn_cookie [OF p(2) p(4)]
    by (auto split: sum.splits option.splits if_splits)
  have n: "(\<forall>t. fst (login E prev fd st) \<noteq> Inl (NextRedirect t)) \<longrightarrow>
      cookie (snd (login E prev fd st)) = cookie st"
  proof (intro impI)
    assume a: "\<forall>t. fst (login E prev fd st) \<noteq> Inl (NextRedirect t)"
    show "cookie (snd (login E prev fd st)) = cookie st"
    proof (rule ccontr)
      assume "cookie (snd (login E prev fd st)) \<noteq> cookie st"
      with k obtain u where "findUnique E (d_email d) = Inr (Some u)"
        and "bcrypt_compare E (d_password d) (passwordHash u)" and "signing_error E = None"
        by blast
      from login_accepted(1) [OF Inr this, of prev st] a show False by blast
    qed
  qed
  show ?thesis using k n Inr by blast
qed

theorem session_only_after_success_witness:
  "fst (login sample_env prev0 (form ''admin@example.com'' ''letmein'' JNull) state0)
     = Inr \<lparr>error = Some ''Invalid email or password'', success = None\<rparr>
   \<and> cookie (snd (login sample_env prev0 (form ''admin@example.com'' ''letmein'' JNull) state0)) = None"
proof -
  have r: "findUnique sample_env
             (d_email \<lparr>d_email = ''admin@example.com'', d_password = ''letmein'', d_from = Some ''/dashboard/default''\<rparr>) = Inr None
           \<or> (\<exists>u. findUnique sample_env
                      (d_email \<lparr>d_email = ''admin@example.com'', d_password = ''letmein'', d_from = Some ''/dashboard/default''\<rparr>) = Inr (Some u)
                  \<and> \<not> bcrypt_compare sample_env
                      (d_password \<lparr>d_email = ''admin@example.com'', d_password = ''letmein'', d_from = Some ''/dashboard/default''\<rparr>)
                      (passwordHash u))"
    using sample_find_admin sample_compare_wrong by simp
  have o: "fst (login sample_env prev0 (form ''admin@example.com'' ''letmein'' JNull) state0)
     = Inr \<lparr>error = Some ''Invalid email or password'', success = None\<rparr>"
    by (rule login_rejected(1) [OF sample_parse_wrong r])
  then have "\<forall>t. fst (login sample_env prev0 (form ''admin@example.com'' ''letmein'' JNull) state0)
                \<noteq> Inl (NextRedirect t)"
    by simp
  then have "cookie (snd (login sample_env prev0 (form ''admin@example.com'' ''letmein'' JNull) state0))
               = cookie state0"
    using session_only_after_success [of sample_env prev0 "form ''admin@example.com'' ''letmein'' JNull" state0]
    by blast
  then show ?thesis using o by (simp add: state0_def)
qed

end
